theory Spec2Isabelle
  imports Complex_Main "HOL-Library.AList" "HOL-Library.Product_Lexorder"
begin

section \<open>Python values used by the calculator\<close>

text \<open>
  The calculator (\<^verbatim>\<open>src/calculator.py\<close>) works on Python floats, datetimes, strings,
  tuples, lists and dicts. Quantities, prices and gains are modelled in exact arithmetic
  (\<^typ>\<open>real\<close>): rounding of IEEE doubles is outside this model. A dict is an association
  list in insertion order (\<^verbatim>\<open>items()\<close> iterates in that order); storing under an existing
  key keeps the key's position, storing under a new key appends, which is what
  \<^const>\<open>AList.update\<close> does. Exceptions are values of \<open>py_error\<close>.
\<close>

datatype py_error = KeyError | ZeroDivisionError

definition dict_get :: "('k \<times> 'v) list \<Rightarrow> 'k \<Rightarrow> py_error + 'v" where
  "dict_get d k = (case map_of d k of None \<Rightarrow> Inl KeyError | Some v \<Rightarrow> Inr v)"

definition py_div :: "real \<Rightarrow> real \<Rightarrow> py_error + real" where
  "py_div a b = (if b = 0 then Inl ZeroDivisionError else Inr (a / b))"

subsection \<open>datetime\<close>

text \<open>
  A naive \<^verbatim>\<open>datetime\<close> of the standard library: its seven fields, the proleptic Gregorian
  ordinal of its date, comparison (field by field, as the library's \<^verbatim>\<open>_cmp\<close>) and the
  \<^verbatim>\<open>days\<close> attribute of the difference of two datetimes (a normalised \<^verbatim>\<open>timedelta\<close>:
  the floor of the difference in whole days). The constructor admits months 1..12 only.
\<close>

record datetime =
  year :: int
  month :: int
  day :: int
  hour :: int
  minute :: int
  second :: int
  microsecond :: int

definition is_leap :: "int \<Rightarrow> bool" where
  "is_leap y = (y mod 4 = 0 \<and> (y mod 100 \<noteq> 0 \<or> y mod 400 = 0))"

definition days_before_year :: "int \<Rightarrow> int" where
  "days_before_year y = (let y1 = y - 1 in y1 * 365 + y1 div 4 - y1 div 100 + y1 div 400)"

definition days_before_month :: "int \<Rightarrow> int \<Rightarrow> int" where
  "days_before_month y m =
     ([0, 0, 31, 59, 90, 120, 151, 181, 212, 243, 273, 304, 334] ! nat m)
       + (if m > 2 \<and> is_leap y then 1 else 0)"

definition toordinal :: "datetime \<Rightarrow> int" where
  "toordinal d = days_before_year (year d) + days_before_month (year d) (month d) + day d"

definition timedelta_days :: "datetime \<Rightarrow> datetime \<Rightarrow> int" where
  "timedelta_days a b =
     (let days = toordinal a - toordinal b;
          secs = (second a + minute a * 60 + hour a * 3600)
                   - (second b + minute b * 60 + hour b * 3600);
          us = microsecond a - microsecond b
      in (days * 86400000000 + secs * 1000000 + us) div 86400000000)"

definition datetime_key :: "datetime \<Rightarrow> int \<times> int \<times> int \<times> int \<times> int \<times> int \<times> int" where
  "datetime_key d = (year d, month d, day d, hour d, minute d, second d, microsecond d)"

section \<open>models.py: Transaction\<close>

text \<open>
  The dataclass \<^verbatim>\<open>Transaction\<close>. A value of the record is the object after
  \<^verbatim>\<open>__post_init__\<close>: its date is set and its symbols are in upper case. The fields
  \<^verbatim>\<open>id\<close> and \<^verbatim>\<open>notes\<close> are \<open>tx_id\<close> and \<open>tx_notes\<close> here: \<open>id\<close> is the identity
  function of HOL and the other is a keyword.
\<close>

record Transaction =
  tx_id :: "int option"
  wallet_id :: int
  transaction_type :: string
  crypto_symbol :: string
  quantity :: real
  price_per_unit :: real
  fiat_currency :: string
  fee :: real
  transaction_date :: datetime
  tx_notes :: string
  created_at :: "datetime option"

definition total_cost :: "Transaction \<Rightarrow> real" where
  "total_cost tx = quantity tx * price_per_unit tx"

definition total_with_fee :: "Transaction \<Rightarrow> real" where
  "total_with_fee tx = total_cost tx + fee tx"

section \<open>calculator.py: ProfitLossCalculator\<close>

text \<open>
  A lot is the tuple \<^verbatim>\<open>(quantity, price_per_unit, date, id)\<close> appended at line 71. A realized
  gain is the dict built at lines 111-124; its key \<^verbatim>\<open>'k'\<close> is the field \<open>rg_k\<close>. The
  attributes \<^verbatim>\<open>self.transactions\<close> and \<^verbatim>\<open>self.inventory\<close> are the fields of
  \<open>calculator\<close>.
\<close>

type_synonym lot = "real \<times> real \<times> datetime \<times> int option"

record realized_gain =
  rg_buy_date :: datetime
  rg_sell_date :: datetime
  rg_buy_price :: real
  rg_sell_price :: real
  rg_quantity :: real
  rg_cost_basis :: real
  rg_proceeds :: real
  rg_gain :: real
  rg_term :: string
  rg_holding_period_days :: int
  rg_buy_transaction_id :: "int option"
  rg_sell_transaction_id :: "int option"

type_synonym inventory_dict = "(string \<times> lot list) list"
type_synonym gains_dict = "(string \<times> realized_gain list) list"

record calculator =
  self_transactions :: "Transaction list"
  self_inventory :: inventory_dict

record pt_result =
  res_realized_gains :: gains_dict
  res_inventory :: inventory_dict

text \<open>\<^verbatim>\<open>load_transactions\<close>: the list is sorted by date (Python's sort is stable) and the
  inventory is reset. The input is taken as Transaction objects.\<close>

definition load_transactions :: "calculator \<Rightarrow> Transaction list \<Rightarrow> calculator" where
  "load_transactions c txs =
     c\<lparr>self_transactions := sort_key (\<lambda>x. datetime_key (transaction_date x)) txs,
       self_inventory := []\<rparr>"

text \<open>Lines 101-124: the gain recorded for the portion \<open>used_qty\<close> of one lot.\<close>

definition make_gain :: "Transaction \<Rightarrow> real \<Rightarrow> real \<Rightarrow> datetime \<Rightarrow> int option \<Rightarrow> realized_gain" where
  "make_gain tx used_qty buy_price buy_date buy_id =
     (let portion_cost = used_qty * buy_price;
          portion_proceeds = used_qty * price_per_unit tx;
          gain = portion_proceeds - portion_cost;
          holding_period = timedelta_days (transaction_date tx) buy_date;
          term = (if holding_period > 365 then ''long'' else ''short'')
      in \<lparr>rg_buy_date = buy_date,
          rg_sell_date = transaction_date tx,
          rg_buy_price = buy_price,
          rg_sell_price = price_per_unit tx,
          rg_quantity = used_qty,
          rg_cost_basis = portion_cost,
          rg_proceeds = portion_proceeds,
          rg_gain = gain,
          rg_term = term,
          rg_holding_period_days = holding_period,
          rg_buy_transaction_id = buy_id,
          rg_sell_transaction_id = tx_id tx\<rparr>)"

definition lots_len :: "inventory_dict \<Rightarrow> string \<Rightarrow> nat" where
  "lots_len inventory symbol = (case map_of inventory symbol of None \<Rightarrow> 0 | Some lots \<Rightarrow> length lots)"

text \<open>
  Lines 84-127, the \<^verbatim>\<open>while\<close> loop of a sell. Its state is \<open>remaining_qty\<close>, the
  accumulator \<open>cost_basis\<close> (here \<open>cb\<close>) and the two dicts, whose lists it changes in
  place. The test \<^verbatim>\<open>remaining_qty > 0 and self.inventory[symbol]\<close> looks the symbol up only
  when the first conjunct holds, and the head \<^verbatim>\<open>[0]\<close> is read only when the list is not
  empty. The local \<^verbatim>\<open>sell_proceeds\<close> of line 81 is never read and is left out.
\<close>

function fifo_loop ::
  "Transaction \<Rightarrow> real \<Rightarrow> real \<Rightarrow> inventory_dict \<Rightarrow> gains_dict
     \<Rightarrow> py_error + (real \<times> real \<times> inventory_dict \<times> gains_dict)" where
  "fifo_loop tx remaining_qty cb inventory realized_gains =
     (if remaining_qty > 0 then
        (case dict_get inventory (crypto_symbol tx) of
           Inl e \<Rightarrow> Inl e
         | Inr lots \<Rightarrow>
            (case lots of
               [] \<Rightarrow> Inr (remaining_qty, cb, inventory, realized_gains)
             | (buy_qty, buy_price, buy_date, buy_id) # rest \<Rightarrow>
                (let used_qty = (if buy_qty \<le> remaining_qty then buy_qty else remaining_qty);
                     inventory' =
                       (if buy_qty \<le> remaining_qty
                        then AList.update (crypto_symbol tx) rest inventory
                        else AList.update (crypto_symbol tx)
                               ((buy_qty - remaining_qty, buy_price, buy_date, buy_id) # rest)
                               inventory)
                 in case dict_get realized_gains (crypto_symbol tx) of
                      Inl e \<Rightarrow> Inl e
                    | Inr gains \<Rightarrow>
                        fifo_loop tx (remaining_qty - used_qty) (cb + used_qty * buy_price)
                          inventory'
                          (AList.update (crypto_symbol tx)
                             (gains @ [make_gain tx used_qty buy_price buy_date buy_id])
                             realized_gains))))
      else Inr (remaining_qty, cb, inventory, realized_gains))"
  by pat_completeness auto
termination
  by (relation "measure (\<lambda>(tx, remaining_qty, cb, inventory, realized_gains).
        2 * lots_len inventory (crypto_symbol tx) + (if remaining_qty > 0 then 1 else 0))")
     (auto simp: lots_len_def dict_get_def update_conv' split: option.splits if_splits)

definition shortfall_warning :: "string \<Rightarrow> string" where
  "shortfall_warning symbol =
     ''Warning: Trying to sell more '' @ symbol @ '' than available in inventory.''"

text \<open>
  Lines 61-137, the body of the \<^verbatim>\<open>for\<close> loop. The state is \<^verbatim>\<open>self.inventory\<close>,
  \<^verbatim>\<open>realized_gains\<close> and the lines printed so far.
\<close>

type_synonym pt_state = "inventory_dict \<times> gains_dict \<times> string list"

definition process_tx :: "Transaction \<Rightarrow> pt_state \<Rightarrow> py_error + pt_state" where
  "process_tx tx st =
     (case st of (inventory0, realized_gains0, out) \<Rightarrow>
      let symbol = crypto_symbol tx;
          inventory = (if map_of inventory0 symbol = None
                       then AList.update symbol [] inventory0 else inventory0);
          realized_gains = (if map_of realized_gains0 symbol = None
                            then AList.update symbol [] realized_gains0 else realized_gains0)
      in if transaction_type tx = ''buy'' \<or> transaction_type tx = ''transfer_in'' then
           (case dict_get inventory symbol of
              Inl e \<Rightarrow> Inl e
            | Inr lots \<Rightarrow>
                Inr (AList.update symbol
                       (lots @ [(quantity tx, price_per_unit tx, transaction_date tx, tx_id tx)])
                       inventory,
                     realized_gains, out))
         else if transaction_type tx = ''sell'' \<or> transaction_type tx = ''transfer_out'' then
           (case fifo_loop tx (quantity tx) 0 inventory realized_gains of
              Inl e \<Rightarrow> Inl e
            | Inr (remaining_qty, cb, inventory', realized_gains') \<Rightarrow>
                Inr (inventory', realized_gains',
                     if remaining_qty > 0 then out @ [shortfall_warning symbol] else out))
         else if transaction_type tx = ''exchange'' then Inr (inventory, realized_gains, out)
         else Inr (inventory, realized_gains, out))"

fun for_loop :: "Transaction list \<Rightarrow> pt_state \<Rightarrow> py_error + pt_state" where
  "for_loop [] st = Inr st"
| "for_loop (tx # txs) st =
     (case process_tx tx st of Inl e \<Rightarrow> Inl e | Inr st' \<Rightarrow> for_loop txs st')"

text \<open>
  \<^verbatim>\<open>process_transactions\<close> returns the result dict, the calculator as it leaves it
  (\<^verbatim>\<open>self.inventory\<close> is the returned inventory) and the lines it printed.
\<close>

definition process_transactions :: "calculator \<Rightarrow> py_error + (pt_result \<times> calculator \<times> string list)" where
  "process_transactions c =
     (case for_loop (self_transactions c) ([], [], []) of
        Inl e \<Rightarrow> Inl e
      | Inr (inventory, realized_gains, out) \<Rightarrow>
          Inr (\<lparr>res_realized_gains = realized_gains, res_inventory = inventory\<rparr>,
               c\<lparr>self_inventory := inventory\<rparr>, out))"

text \<open>
  \<^verbatim>\<open>calculate_realized_gains\<close>, lines 161-172. The test \<^verbatim>\<open>year and ...\<close> is Python
  truthiness: it is false for \<^verbatim>\<open>None\<close> and for the integer 0. The key \<^verbatim>\<open>'transactions'\<close>
  of the returned dict is the field \<open>sum_transactions\<close>.
\<close>

record realized_summary =
  short_term_gains :: real
  long_term_gains :: real
  total_gains :: real
  sum_transactions :: "realized_gain list"

definition year_skips :: "int option \<Rightarrow> realized_gain \<Rightarrow> bool" where
  "year_skips y gain =
     (case y of None \<Rightarrow> False | Some n \<Rightarrow> n \<noteq> 0 \<and> year (rg_sell_date gain) \<noteq> n)"

fun gains_loop ::
  "int option \<Rightarrow> realized_gain list \<Rightarrow> real \<times> real \<times> realized_gain list
     \<Rightarrow> real \<times> real \<times> realized_gain list" where
  "gains_loop y [] acc = acc"
| "gains_loop y (gain # gains) (short_term_total, long_term_total, transactions) =
     (if year_skips y gain then gains_loop y gains (short_term_total, long_term_total, transactions)
      else if rg_term gain = ''short''
      then gains_loop y gains (short_term_total + rg_gain gain, long_term_total, transactions @ [gain])
      else gains_loop y gains (short_term_total, long_term_total + rg_gain gain, transactions @ [gain]))"

fun symbols_loop ::
  "int option \<Rightarrow> gains_dict \<Rightarrow> real \<times> real \<times> realized_gain list
     \<Rightarrow> real \<times> real \<times> realized_gain list" where
  "symbols_loop y [] acc = acc"
| "symbols_loop y ((symbol, gains) # items) acc = symbols_loop y items (gains_loop y gains acc)"

definition calculate_realized_gains ::
  "calculator \<Rightarrow> int option \<Rightarrow> py_error + (realized_summary \<times> calculator \<times> string list)" where
  "calculate_realized_gains c y =
     (case process_transactions c of
        Inl e \<Rightarrow> Inl e
      | Inr (result, c', out) \<Rightarrow>
          (case symbols_loop y (res_realized_gains result) (0, 0, []) of
             (short_term_total, long_term_total, transactions) \<Rightarrow>
               Inr (\<lparr>short_term_gains = short_term_total,
                     long_term_gains = long_term_total,
                     total_gains = short_term_total + long_term_total,
                     sum_transactions = transactions\<rparr>, c', out)))"

text \<open>
  \<^verbatim>\<open>get_current_inventory\<close>, lines 188-209. The inner dicts of \<^verbatim>\<open>'lots'\<close> are \<open>lot_info\<close>,
  the summary of one symbol is \<open>inventory_item\<close>.
\<close>

record lot_info =
  lot_quantity :: real
  lot_price :: real
  lot_date :: datetime
  lot_transaction_id :: "int option"

record inventory_item =
  inv_quantity :: real
  inv_average_cost :: real
  inv_lots :: "lot_info list"

definition lot_dict :: "lot \<Rightarrow> lot_info" where
  "lot_dict lot = (case lot of (q, p, d, i) \<Rightarrow>
     \<lparr>lot_quantity = q, lot_price = p, lot_date = d, lot_transaction_id = i\<rparr>)"

fun summary_loop ::
  "inventory_dict \<Rightarrow> (string \<times> inventory_item) list \<Rightarrow> py_error + (string \<times> inventory_item) list" where
  "summary_loop [] inventory_summary = Inr inventory_summary"
| "summary_loop ((symbol, lots) # items) inventory_summary =
     (let total_quantity = sum_list (map fst lots) in
      if total_quantity > 0 then
        (case py_div (sum_list (map (\<lambda>lot. fst lot * fst (snd lot)) lots)) total_quantity of
           Inl e \<Rightarrow> Inl e
         | Inr avg_price \<Rightarrow>
             summary_loop items
               (AList.update symbol
                  \<lparr>inv_quantity = total_quantity, inv_average_cost = avg_price,
                   inv_lots = map lot_dict lots\<rparr> inventory_summary))
      else summary_loop items inventory_summary)"

definition get_current_inventory ::
  "calculator \<Rightarrow> py_error + ((string \<times> inventory_item) list \<times> calculator \<times> string list)" where
  "get_current_inventory c =
     (case process_transactions c of
        Inl e \<Rightarrow> Inl e
      | Inr (result, c', out) \<Rightarrow>
          (case summary_loop (res_inventory result) [] of
             Inl e \<Rightarrow> Inl e
           | Inr inventory_summary \<Rightarrow> Inr (inventory_summary, c', out)))"

text \<open>\<^verbatim>\<open>calculate_unrealized_gains\<close>, lines 221-249. The price map is only looked up.\<close>

record unrealized_item =
  u_quantity :: real
  u_average_cost :: real
  u_current_price :: real
  u_market_value :: real
  u_cost_basis :: real
  u_unrealized_gain :: real

record unrealized_result =
  by_symbol :: "(string \<times> unrealized_item) list"
  total_unrealized_gain :: real

fun prices_loop ::
  "(string \<rightharpoonup> real) \<Rightarrow> (string \<times> inventory_item) list
     \<Rightarrow> (string \<times> unrealized_item) list \<times> real \<Rightarrow> (string \<times> unrealized_item) list \<times> real" where
  "prices_loop current_prices [] acc = acc"
| "prices_loop current_prices ((symbol, item) # items) (unrealized_gains, total_acc) =
     (case current_prices symbol of
        Some current_price \<Rightarrow>
          (let qty = inv_quantity item;
               avg_cost = inv_average_cost item;
               market_value = qty * current_price;
               cost_basis = qty * avg_cost;
               unrealized_gain = market_value - cost_basis
           in prices_loop current_prices items
                (AList.update symbol
                   \<lparr>u_quantity = qty, u_average_cost = avg_cost, u_current_price = current_price,
                    u_market_value = market_value, u_cost_basis = cost_basis,
                    u_unrealized_gain = unrealized_gain\<rparr> unrealized_gains,
                 total_acc + unrealized_gain))
      | None \<Rightarrow> prices_loop current_prices items (unrealized_gains, total_acc))"

definition calculate_unrealized_gains ::
  "calculator \<Rightarrow> (string \<rightharpoonup> real) \<Rightarrow> py_error + (unrealized_result \<times> calculator \<times> string list)" where
  "calculate_unrealized_gains c current_prices =
     (case get_current_inventory c of
        Inl e \<Rightarrow> Inl e
      | Inr (inventory, c', out) \<Rightarrow>
          (case prices_loop current_prices inventory ([], 0) of
             (unrealized_gains, total_acc) \<Rightarrow>
               Inr (\<lparr>by_symbol = unrealized_gains, total_unrealized_gain = total_acc\<rparr>, c', out)))"

section \<open>Auxiliary notions for the proofs\<close>

text \<open>
  The definitions of this section are not code of the repository. \<open>entries_of\<close> reads a
  dict of lists with an absent key read as the empty list; \<open>setdefault_nil\<close> is the
  initialisation of lines 64-67; \<open>fifo_lots\<close> is the \<^verbatim>\<open>while\<close> loop seen on the lot queue
  of the sold symbol alone, related to \<open>fifo_loop\<close> by lemma \<open>fifo_loop_eq\<close>;
  \<open>bought_qty\<close> and \<open>sold_qty\<close> are the sums of the quantities acquired and disposed of
  for a symbol; \<open>gain_ok\<close> says that the derived fields of a gain are computed from its
  quantity, prices and dates.
\<close>

definition entries_of :: "('k \<times> 'v list) list \<Rightarrow> 'k \<Rightarrow> 'v list" where
  "entries_of d k = (case map_of d k of None \<Rightarrow> [] | Some v \<Rightarrow> v)"

definition setdefault_nil :: "('k \<times> 'v list) list \<Rightarrow> 'k \<Rightarrow> ('k \<times> 'v list) list" where
  "setdefault_nil d k = (if map_of d k = None then AList.update k [] d else d)"

fun fifo_lots :: "Transaction \<Rightarrow> real \<Rightarrow> lot list \<Rightarrow> real \<times> lot list \<times> realized_gain list" where
  "fifo_lots tx r [] = (r, [], [])"
| "fifo_lots tx r ((q, p, d, i) # rest) =
     (if r > 0 then
        (if q \<le> r then
           (case fifo_lots tx (r - q) rest of
              (r', lots', gs) \<Rightarrow> (r', lots', make_gain tx q p d i # gs))
         else (0, (q - r, p, d, i) # rest, [make_gain tx r p d i]))
      else (r, (q, p, d, i) # rest, []))"





definition gain_ok :: "realized_gain \<Rightarrow> bool" where
  "gain_ok g =
     (rg_cost_basis g = rg_quantity g * rg_buy_price g \<and>
      rg_proceeds g = rg_quantity g * rg_sell_price g \<and>
      rg_gain g = rg_proceeds g - rg_cost_basis g \<and>
      rg_holding_period_days g = timedelta_days (rg_sell_date g) (rg_buy_date g) \<and>
      rg_term g = (if rg_holding_period_days g > 365 then ''long'' else ''short''))"

text \<open>Concrete values for the examples: a datetime at midnight, a transaction with the
  defaults of the dataclass, and \<^verbatim>\<open>ProfitLossCalculator(transactions)\<close> (lines 16-28).\<close>

definition date_at :: "int \<Rightarrow> int \<Rightarrow> int \<Rightarrow> datetime" where
  "date_at y m d =
     \<lparr>year = y, month = m, day = d, hour = 0, minute = 0, second = 0, microsecond = 0\<rparr>"

definition tx_of :: "int \<Rightarrow> string \<Rightarrow> string \<Rightarrow> real \<Rightarrow> real \<Rightarrow> datetime \<Rightarrow> Transaction" where
  "tx_of i ty s q p d =
     \<lparr>tx_id = Some i, wallet_id = 0, transaction_type = ty, crypto_symbol = s, quantity = q,
      price_per_unit = p, fiat_currency = ''USD'', fee = 0, transaction_date = d,
      tx_notes = [], created_at = None\<rparr>"

definition new_calculator :: "Transaction list \<Rightarrow> calculator" where
  "new_calculator txs =
     \<lparr>self_transactions = sort_key (\<lambda>x. datetime_key (transaction_date x)) txs,
      self_inventory = []\<rparr>"

definition eth_buy3 :: Transaction where
  "eth_buy3 = tx_of 1 ''buy'' ''ETH'' 3 1000 (date_at 2023 1 10)"

definition eth_sell5 :: Transaction where
  "eth_sell5 = tx_of 2 ''sell'' ''ETH'' 5 1500 (date_at 2023 3 1)"

definition eth_sell3 :: Transaction where
  "eth_sell3 = tx_of 2 ''sell'' ''ETH'' 3 1500 (date_at 2023 3 1)"

definition eth_sell2 :: Transaction where
  "eth_sell2 = tx_of 2 ''sell'' ''ETH'' 2 1500 (date_at 2023 3 1)"

definition eth_held3 :: inventory_dict where
  "eth_held3 = [(''ETH'', [(3, 1000, date_at 2023 1 10, Some 1)])]"

definition btc_two_lots :: inventory_dict where
  "btc_two_lots =
     [(''BTC'', [(1, 10000, date_at 2022 1 1, Some 1), (1, 20000, date_at 2022 6 1, Some 2)])]"

definition btc_sell_half :: Transaction where
  "btc_sell_half = tx_of 3 ''sell'' ''BTC'' (1 / 2) 30000 (date_at 2023 1 1)"

text \<open>
  \<open>all_entries\<close> lists the values of a dict of lists in the order of \<^verbatim>\<open>items()\<close>;
  \<open>lot_summary\<close> and \<open>unrealized_of\<close> are the dicts built at lines 196-207 and 235-242;
  \<open>with_fees\<close> replaces the fee of every transaction; \<open>outcome\<close> keeps the value returned
  and the lines printed.
\<close>

definition all_entries :: "('k \<times> 'v list) list \<Rightarrow> 'v list" where
  "all_entries d = concat (map snd d)"

definition lot_summary :: "lot list \<Rightarrow> inventory_item" where
  "lot_summary lots =
     \<lparr>inv_quantity = sum_list (map fst lots),
      inv_average_cost = sum_list (map (\<lambda>lot. fst lot * fst (snd lot)) lots) / sum_list (map fst lots),
      inv_lots = map lot_dict lots\<rparr>"

definition unrealized_of :: "real \<Rightarrow> inventory_item \<Rightarrow> unrealized_item" where
  "unrealized_of current_price item =
     \<lparr>u_quantity = inv_quantity item, u_average_cost = inv_average_cost item,
      u_current_price = current_price,
      u_market_value = inv_quantity item * current_price,
      u_cost_basis = inv_quantity item * inv_average_cost item,
      u_unrealized_gain = inv_quantity item * current_price
                            - inv_quantity item * inv_average_cost item\<rparr>"

definition with_fees :: "(Transaction \<Rightarrow> real) \<Rightarrow> calculator \<Rightarrow> calculator" where
  "with_fees f c = c\<lparr>self_transactions := map (\<lambda>tx. tx\<lparr>fee := f tx\<rparr>) (self_transactions c)\<rparr>"

definition btc_buy2 :: Transaction where
  "btc_buy2 = tx_of 1 ''buy'' ''BTC'' 2 10000 (date_at 2022 1 1)"

definition btc_sell_365 :: Transaction where
  "btc_sell_365 = tx_of 2 ''sell'' ''BTC'' 1 30000 (date_at 2023 1 1)"

definition btc_sell_366 :: Transaction where
  "btc_sell_366 = tx_of 3 ''sell'' ''BTC'' 1 30000 (date_at 2023 1 2)"

definition outcome :: "py_error + ('a \<times> calculator \<times> string list) \<Rightarrow> py_error + ('a \<times> string list)" where
  "outcome r = map_sum id (\<lambda>x. (fst x, snd (snd x))) r"

definition btc_buy_jan :: Transaction where
  "btc_buy_jan = tx_of 1 ''buy'' ''BTC'' 1 10000 (date_at 2022 1 1)"

definition btc_buy_jun :: Transaction where
  "btc_buy_jun = tx_of 2 ''buy'' ''BTC'' 1 20000 (date_at 2022 6 1)"

definition btc_sell_15 :: Transaction where
  "btc_sell_15 = tx_of 3 ''sell'' ''BTC'' (3 / 2) 30000 (date_at 2023 1 1)"

definition empty_calculator :: calculator where
  "empty_calculator = \<lparr>self_transactions = [], self_inventory = []\<rparr>"

definition eth_buy_mar :: Transaction where
  "eth_buy_mar = tx_of 4 ''buy'' ''ETH'' 10 1500 (date_at 2022 3 1)"

definition eth_sell_feb :: Transaction where
  "eth_sell_feb = tx_of 5 ''sell'' ''ETH'' 4 1800 (date_at 2023 2 1)"

section \<open>The loop on one queue\<close>

declare fifo_loop.simps [simp del]

lemma rg_cost_basis_make_gain [simp]: "rg_cost_basis (make_gain tx u p d i) = u * p"
  by (simp add: make_gain_def Let_def)

lemma fifo_loop_eq:
  "map_of inventory (crypto_symbol tx) = Some lots \<Longrightarrow>
   map_of realized_gains (crypto_symbol tx) = Some gains \<Longrightarrow>
   fifo_loop tx r cb inventory realized_gains =
     (case fifo_lots tx r lots of
        (r', lots', gs) \<Rightarrow>
          Inr (r', cb + sum_list (map rg_cost_basis gs),
               AList.update (crypto_symbol tx) lots' inventory,
               AList.update (crypto_symbol tx) (gains @ gs) realized_gains))"
proof (induction lots arbitrary: r cb inventory realized_gains gains)
  case Nil
  then show ?case
    by (subst fifo_loop.simps) (simp add: dict_get_def update_triv)
next
  case (Cons lot rest)
  obtain q p d i where lot: "lot = (q, p, d, i)" by (cases lot) auto
  show ?case
  proof (cases "r > 0")
    case False
    with Cons.prems show ?thesis
      by (subst fifo_loop.simps) (simp add: lot update_triv)
  next
    case r: True
    show ?thesis
    proof (cases "q \<le> r")
      case True
      have a: "map_of (AList.update (crypto_symbol tx) rest inventory) (crypto_symbol tx) = Some rest"
        by (simp add: update_conv')
      have b: "map_of (AList.update (crypto_symbol tx) (gains @ [make_gain tx q p d i]) realized_gains)
                 (crypto_symbol tx) = Some (gains @ [make_gain tx q p d i])"
        by (simp add: update_conv')
      show ?thesis
        using Cons.prems r True
        by (subst fifo_loop.simps)
           (simp add: lot dict_get_def Cons.IH [OF a b] split: prod.splits add: algebra_simps)
    next
      case False
      have z: "\<And>cb' inv' rg'. fifo_loop tx 0 cb' inv' rg' = Inr (0, cb', inv', rg')"
        by (subst fifo_loop.simps) simp
      show ?thesis
        using Cons.prems r False
        by (subst fifo_loop.simps) (simp add: lot dict_get_def z)
    qed
  qed
qed


lemma map_of_setdefault_nil: "map_of (setdefault_nil d k) k = Some (entries_of d k)"
  by (auto simp: setdefault_nil_def entries_of_def update_conv')

lemma update_setdefault_nil [simp]:
  "AList.update k v (setdefault_nil d k) = AList.update k v d"
  by (simp add: setdefault_nil_def)

lemma process_tx_buy:
  assumes "transaction_type tx = ''buy'' \<or> transaction_type tx = ''transfer_in''"
  shows "process_tx tx (inventory, realized_gains, out) =
     Inr (AList.update (crypto_symbol tx)
            (entries_of inventory (crypto_symbol tx)
               @ [(quantity tx, price_per_unit tx, transaction_date tx, tx_id tx)]) inventory,
          setdefault_nil realized_gains (crypto_symbol tx), out)"
  using assms
  by (auto simp: process_tx_def Let_def dict_get_def entries_of_def setdefault_nil_def update_conv'
           split: option.splits)

lemma process_tx_sell:
  assumes "transaction_type tx = ''sell'' \<or> transaction_type tx = ''transfer_out''"
  shows "process_tx tx (inventory, realized_gains, out) =
     (case fifo_lots tx (quantity tx) (entries_of inventory (crypto_symbol tx)) of
        (r', lots', gs) \<Rightarrow>
          Inr (AList.update (crypto_symbol tx) lots' inventory,
               AList.update (crypto_symbol tx)
                 (entries_of realized_gains (crypto_symbol tx) @ gs) realized_gains,
               if r' > 0 then out @ [shortfall_warning (crypto_symbol tx)] else out))"
proof -
  have t: "\<not> (transaction_type tx = ''buy'' \<or> transaction_type tx = ''transfer_in'')"
    using assms by auto
  have eq: "fifo_loop tx (quantity tx) 0 (setdefault_nil inventory (crypto_symbol tx))
              (setdefault_nil realized_gains (crypto_symbol tx)) =
            (case fifo_lots tx (quantity tx) (entries_of inventory (crypto_symbol tx)) of
               (r', lots', gs) \<Rightarrow>
                 Inr (r', 0 + sum_list (map rg_cost_basis gs),
                      AList.update (crypto_symbol tx) lots' inventory,
                      AList.update (crypto_symbol tx)
                        (entries_of realized_gains (crypto_symbol tx) @ gs) realized_gains))"
    by (simp add: fifo_loop_eq [OF map_of_setdefault_nil map_of_setdefault_nil])
  show ?thesis
    using assms t
    by (simp add: process_tx_def Let_def eq setdefault_nil_def [symmetric] split: prod.splits)
qed

lemma process_tx_other:
  assumes "\<not> (transaction_type tx = ''buy'' \<or> transaction_type tx = ''transfer_in'')"
    and "\<not> (transaction_type tx = ''sell'' \<or> transaction_type tx = ''transfer_out'')"
  shows "process_tx tx (inventory, realized_gains, out) =
     Inr (setdefault_nil inventory (crypto_symbol tx),
          setdefault_nil realized_gains (crypto_symbol tx), out)"
  using assms by (simp add: process_tx_def Let_def setdefault_nil_def)

lemma process_tx_total: "\<exists>st'. process_tx tx st = Inr st'"
proof -
  obtain inventory realized_gains out where st: "st = (inventory, realized_gains, out)"
    by (metis prod_cases3)
  consider "transaction_type tx = ''buy'' \<or> transaction_type tx = ''transfer_in''"
    | "transaction_type tx = ''sell'' \<or> transaction_type tx = ''transfer_out''"
    | "\<not> (transaction_type tx = ''buy'' \<or> transaction_type tx = ''transfer_in'')"
      "\<not> (transaction_type tx = ''sell'' \<or> transaction_type tx = ''transfer_out'')"
    by blast
  then show ?thesis
  proof cases
    case 1 then show ?thesis by (simp add: st process_tx_buy)
  next
    case 2 then show ?thesis by (simp add: st process_tx_sell split: prod.splits)
  next
    case 3 then show ?thesis by (simp add: st process_tx_other)
  qed
qed

lemma for_loop_total: "\<exists>st'. for_loop txs st = Inr st'"
proof (induction txs arbitrary: st)
  case Nil show ?case by (intro exI [of _ st]) simp
next
  case (Cons tx txs)
  obtain st1 where "process_tx tx st = Inr st1" using process_tx_total by blast
  then show ?case using Cons.IH [of st1] by simp
qed

lemma for_loop_append:
  "for_loop (xs @ ys) st = (case for_loop xs st of Inl e \<Rightarrow> Inl e | Inr st' \<Rightarrow> for_loop ys st')"
  by (induction xs arbitrary: st) (auto split: sum.splits)

lemma process_transactions_total:
  "\<exists>res inventory out. process_transactions c =
      Inr (res, c\<lparr>self_inventory := inventory\<rparr>, out) \<and> res_inventory res = inventory
      \<and> for_loop (self_transactions c) ([], [], []) = Inr (inventory, res_realized_gains res, out)"
proof -
  obtain st where st: "for_loop (self_transactions c) ([], [], []) = Inr st"
    using for_loop_total by blast
  obtain inventory realized_gains out where "st = (inventory, realized_gains, out)"
    by (metis prod_cases3)
  with st show ?thesis by (simp add: process_transactions_def)
qed

lemma entries_of_setdefault_nil [simp]: "entries_of (setdefault_nil d k) s = entries_of d s"
  by (auto simp: entries_of_def setdefault_nil_def update_conv' split: option.splits)

section \<open>Claims about a run and about exchanges\<close>

text \<open>
  C3. Running \<open>process_transactions\<close> twice gives the same result twice: the call returns,
  and a second call on the calculator left by the first returns the same realized gains
  (same records, same order, per symbol), the same residual inventory, the same printed
  lines and the same calculator. The inventory left by the first run is discarded at
  line 57.
\<close>

theorem process_transactions_idempotent:
  "\<exists>res c' out. process_transactions c = Inr (res, c', out) \<and>
     process_transactions c' = Inr (res, c', out)"
proof -
  obtain res inventory out where
    1: "process_transactions c = Inr (res, c\<lparr>self_inventory := inventory\<rparr>, out)"
    and 2: "for_loop (self_transactions c) ([], [], []) = Inr (inventory, res_realized_gains res, out)"
    and 3: "res_inventory res = inventory"
    using process_transactions_total [of c] by blast
  have "process_transactions (c\<lparr>self_inventory := inventory\<rparr>)
          = Inr (res, c\<lparr>self_inventory := inventory\<rparr>, out)"
    using 2 3 by (simp add: process_transactions_def)
  with 1 show ?thesis by blast
qed

text \<open>
  C9. Processing a transaction of type \<^verbatim>\<open>exchange\<close> records nothing: in every state of the
  loop the step returns, every symbol's lot queue holds the same lots with the same
  quantities, every symbol's list of realized gains is the same, and nothing is printed.
  (Lines 64-67 may add an empty queue and an empty gain list for the symbol.)
\<close>

theorem exchange_records_nothing:
  assumes "transaction_type tx = ''exchange''"
  shows "\<exists>inventory' realized_gains'.
           process_tx tx (inventory, realized_gains, out) = Inr (inventory', realized_gains', out) \<and>
           (\<forall>s. entries_of inventory' s = entries_of inventory s) \<and>
           (\<forall>s. entries_of realized_gains' s = entries_of realized_gains s)"
  using assms by (simp add: process_tx_other)

theorem exchange_records_nothing_witness:
  "transaction_type (tx_of 7 ''exchange'' ''BTC'' 2 100 (date_at 2023 3 1)) = ''exchange'' \<and>
   (\<exists>inventory' realized_gains'.
      process_tx (tx_of 7 ''exchange'' ''BTC'' 2 100 (date_at 2023 3 1))
        ([(''BTC'', [(1, 50, date_at 2022 1 1, Some 1)])], [], [])
        = Inr (inventory', realized_gains', []) \<and>
      (\<forall>s. entries_of inventory' s = entries_of [(''BTC'', [(1, 50, date_at 2022 1 1, Some 1)])] s) \<and>
      (\<forall>s. entries_of realized_gains' s = entries_of [] s))"
  using exchange_records_nothing [of "tx_of 7 ''exchange'' ''BTC'' 2 100 (date_at 2023 3 1)"
      "[(''BTC'', [(1, 50, date_at 2022 1 1, Some 1)])]" "[]" "[]"]
  by (simp add: tx_of_def)

section \<open>Facts about the loops\<close>


lemma fifo_lots_gain_sum:
  "fifo_lots tx r lots = (r', lots', gs) \<Longrightarrow> sum_list (map rg_quantity gs) = r - r'"
  by (induction tx r lots arbitrary: r' lots' gs rule: fifo_lots.induct)
     (auto simp: make_gain_def Let_def split: if_splits prod.splits)


lemma fifo_lots_pos_empty:
  "fifo_lots tx r lots = (r', lots', gs) \<Longrightarrow> 0 < r' \<Longrightarrow> lots' = []"
  by (induction tx r lots arbitrary: r' lots' gs rule: fifo_lots.induct)
     (auto split: if_splits prod.splits)


lemma gain_ok_make_gain [simp]: "gain_ok (make_gain tx u p d i)"
  by (simp add: gain_ok_def make_gain_def Let_def)

lemma fifo_lots_gain_ok:
  "fifo_lots tx r lots = (r', lots', gs) \<Longrightarrow> g \<in> set gs \<Longrightarrow> gain_ok g"
  by (induction tx r lots arbitrary: r' lots' gs rule: fifo_lots.induct)
     (auto split: if_splits prod.splits)

lemma make_gain_fee [simp]: "make_gain (tx\<lparr>fee := f\<rparr>) u p d i = make_gain tx u p d i"
  by (simp add: make_gain_def)

lemma fifo_lots_fee [simp]: "fifo_lots (tx\<lparr>fee := f\<rparr>) r lots = fifo_lots tx r lots"
  by (induction tx r lots rule: fifo_lots.induct) auto

lemma entries_of_update [simp]:
  "entries_of (AList.update k v d) s = (if s = k then v else entries_of d s)"
  by (simp add: entries_of_def update_conv')





lemmas example_defs = eth_held3_def btc_two_lots_def btc_sell_half_def eth_buy3_def eth_sell5_def eth_sell3_def eth_sell2_def tx_of_def date_at_def
  new_calculator_def datetime_key_def

lemmas run_defs = process_transactions_def process_tx_buy process_tx_sell process_tx_other
  entries_of_def setdefault_nil_def make_gain_def shortfall_warning_def
  timedelta_days_def toordinal_def days_before_year_def days_before_month_def is_leap_def

section \<open>Claims about selling\<close>

text \<open>
  C5. In every state of the loop in which the queue of the sold symbol has a head lot of
  quantity \<open>q\<close>, a sell (or transfer out) of a quantity strictly smaller than \<open>q\<close> and not negative
  leaves that lot at the head with quantity \<open>q - quantity tx\<close> and with its price, date and
  source transaction id unchanged; the rest of the queue, the queue of every other symbol
  and the order of the symbols are as before, and nothing is printed.
\<close>

theorem partial_sell_splits_head_lot:
  assumes "transaction_type tx = ''sell'' \<or> transaction_type tx = ''transfer_out''"
    and "map_of inventory (crypto_symbol tx) = Some ((q, p, d, i) # rest)"
    and "0 \<le> quantity tx" and "quantity tx < q"
  shows "\<exists>inventory' realized_gains'.
           process_tx tx (inventory, realized_gains, out) = Inr (inventory', realized_gains', out) \<and>
           inventory' = AList.update (crypto_symbol tx) ((q - quantity tx, p, d, i) # rest) inventory \<and>
           map_of inventory' (crypto_symbol tx) = Some ((q - quantity tx, p, d, i) # rest) \<and>
           (\<forall>s. s \<noteq> crypto_symbol tx \<longrightarrow> map_of inventory' s = map_of inventory s) \<and>
           map fst inventory' = map fst inventory"
proof -
  have e: "entries_of inventory (crypto_symbol tx) = (q, p, d, i) # rest"
    using assms(2) by (simp add: entries_of_def)
  have k: "crypto_symbol tx \<in> fst ` set inventory"
    using assms(2) by (metis map_of_eq_None_iff option.distinct(1))
  show ?thesis
    using assms(3,4) k
    by (simp add: process_tx_sell [OF assms(1)] e update_conv' update_keys)
qed

theorem partial_sell_splits_head_lot_witness:
  "(transaction_type btc_sell_half = ''sell'' \<or> transaction_type btc_sell_half = ''transfer_out'') \<and>
   map_of btc_two_lots (crypto_symbol btc_sell_half)
     = Some [(1, 10000, date_at 2022 1 1, Some 1), (1, 20000, date_at 2022 6 1, Some 2)] \<and>
   0 \<le> quantity btc_sell_half \<and> quantity btc_sell_half < 1 \<and>
   (\<exists>realized_gains'.
      process_tx btc_sell_half (btc_two_lots, [], [])
      = Inr ([(''BTC'', [(1 / 2, 10000, date_at 2022 1 1, Some 1),
                         (1, 20000, date_at 2022 6 1, Some 2)])],
             realized_gains', []))"
  using partial_sell_splits_head_lot [of btc_sell_half btc_two_lots
      1 10000 "date_at 2022 1 1" "Some 1" "[(1, 20000, date_at 2022 6 1, Some 2)]" "[]" "[]"]
  by (simp add: btc_sell_half_def btc_two_lots_def tx_of_def)







section \<open>Facts about the results\<close>

lemma all_entries_simps [simp]:
  "all_entries [] = []" "all_entries ((k, v) # d) = v @ all_entries d"
  by (simp_all add: all_entries_def)

lemma set_all_entries_update:
  "set (all_entries (AList.update k v d)) \<subseteq> set v \<union> set (all_entries d)"
  by (induction d) auto

lemma set_all_entries_fresh:
  "map_of d k = None \<Longrightarrow> set (all_entries (AList.update k [] d)) = set (all_entries d)"
  by (induction d) (auto split: if_splits)

lemma set_all_entries_setdefault_nil [simp]:
  "set (all_entries (setdefault_nil d k)) = set (all_entries d)"
  by (simp add: setdefault_nil_def set_all_entries_fresh)

lemma entries_of_subset: "set (entries_of d k) \<subseteq> set (all_entries d)"
proof (induction d)
  case Nil
  then show ?case by (simp add: entries_of_def)
next
  case (Cons a d)
  then show ?case by (cases a) (auto simp: entries_of_def split: option.splits if_splits)
qed

lemma process_tx_gain_ok:
  assumes "process_tx tx (inventory, realized_gains, out) = Inr (inventory', realized_gains', out')"
    and "\<forall>g\<in>set (all_entries (realized_gains)). gain_ok g"
  shows "\<forall>g\<in>set (all_entries (realized_gains')). gain_ok g"
proof -
  consider "transaction_type tx = ''buy'' \<or> transaction_type tx = ''transfer_in''"
    | "transaction_type tx = ''sell'' \<or> transaction_type tx = ''transfer_out''"
    | "\<not> (transaction_type tx = ''buy'' \<or> transaction_type tx = ''transfer_in'')"
      "\<not> (transaction_type tx = ''sell'' \<or> transaction_type tx = ''transfer_out'')"
    by blast
  then show ?thesis
  proof cases
    case 1 with assms show ?thesis by (auto simp: process_tx_buy)
  next
    case 2
    obtain r' lots' gs where f:
      "fifo_lots tx (quantity tx) (entries_of inventory (crypto_symbol tx)) = (r', lots', gs)"
      by (metis prod_cases3)
    from assms(1) 2 f have rg: "realized_gains' = AList.update (crypto_symbol tx)
        (entries_of realized_gains (crypto_symbol tx) @ gs) realized_gains"
      by (auto simp: process_tx_sell)
    show ?thesis
    proof
      fix g assume "g \<in> set (all_entries (realized_gains'))"
      then have "g \<in> set (entries_of realized_gains (crypto_symbol tx)) \<or> g \<in> set gs
          \<or> g \<in> set (all_entries (realized_gains))"
        using set_all_entries_update [of "crypto_symbol tx"
            "entries_of realized_gains (crypto_symbol tx) @ gs" realized_gains] rg by auto
      then show "gain_ok g"
        using assms(2) entries_of_subset [of realized_gains "crypto_symbol tx"]
          fifo_lots_gain_ok [OF f] by blast
    qed
  next
    case 3 with assms show ?thesis by (auto simp: process_tx_other)
  qed
qed

lemma for_loop_gain_ok:
  "for_loop txs (inventory, realized_gains, out) = Inr (inventory', realized_gains', out') \<Longrightarrow>
   \<forall>g\<in>set (all_entries (realized_gains)). gain_ok g \<Longrightarrow>
   \<forall>g\<in>set (all_entries (realized_gains')). gain_ok g"
proof (induction txs arbitrary: inventory realized_gains out)
  case Nil
  then show ?case by simp
next
  case (Cons tx txs)
  obtain i1 g1 o1 where 1: "process_tx tx (inventory, realized_gains, out) = Inr (i1, g1, o1)"
    using process_tx_total [of tx "(inventory, realized_gains, out)"] by (metis prod_cases3)
  with Cons.prems have 2: "for_loop txs (i1, g1, o1) = Inr (inventory', realized_gains', out')"
    by simp
  from Cons.IH [OF 2 process_tx_gain_ok [OF 1 Cons.prems(2)]] show ?case .
qed

lemma process_transactions_gain_ok:
  assumes "process_transactions c = Inr (res, c', out)"
    and "g \<in> set (all_entries ((res_realized_gains res)))"
  shows "gain_ok g"
proof -
  from assms(1) have "for_loop (self_transactions c) ([], [], [])
      = Inr (res_inventory res, res_realized_gains res, out)"
    by (auto simp: process_transactions_def split: sum.splits prod.splits)
  from for_loop_gain_ok [OF this] assms(2) show ?thesis by simp
qed

lemma process_tx_fee [simp]: "process_tx (tx\<lparr>fee := x\<rparr>) st = process_tx tx st"
proof -
  obtain inventory realized_gains out where st: "st = (inventory, realized_gains, out)"
    by (metis prod_cases3)
  consider "transaction_type tx = ''buy'' \<or> transaction_type tx = ''transfer_in''"
    | "transaction_type tx = ''sell'' \<or> transaction_type tx = ''transfer_out''"
    | "\<not> (transaction_type tx = ''buy'' \<or> transaction_type tx = ''transfer_in'')"
      "\<not> (transaction_type tx = ''sell'' \<or> transaction_type tx = ''transfer_out'')"
    by blast
  then show ?thesis
  proof cases
    case 1 then show ?thesis by (simp add: st process_tx_buy)
  next
    case 2 then show ?thesis by (simp add: st process_tx_sell split: prod.splits)
  next
    case 3 then show ?thesis by (simp add: st process_tx_other)
  qed
qed

lemma for_loop_fee [simp]:
  "for_loop (map (\<lambda>tx. tx\<lparr>fee := f tx\<rparr>) txs) st = for_loop txs st"
  by (induction txs arbitrary: st) (auto split: sum.splits)

lemma process_transactions_fee:
  "map_sum id (\<lambda>r. (fst r, snd (snd r))) (process_transactions (with_fees f c))
     = map_sum id (\<lambda>r. (fst r, snd (snd r))) (process_transactions c)"
  by (auto simp: process_transactions_def with_fees_def split: sum.splits)

lemma insort_key_fee:
  "insort_key (\<lambda>x. datetime_key (transaction_date x)) (tx\<lparr>fee := f tx\<rparr>)
      (map (\<lambda>tx. tx\<lparr>fee := f tx\<rparr>) xs)
   = map (\<lambda>tx. tx\<lparr>fee := f tx\<rparr>) (insort_key (\<lambda>x. datetime_key (transaction_date x)) tx xs)"
  by (induction xs) auto

lemma sort_key_fee:
  "sort_key (\<lambda>x. datetime_key (transaction_date x)) (map (\<lambda>tx. tx\<lparr>fee := f tx\<rparr>) txs)
   = map (\<lambda>tx. tx\<lparr>fee := f tx\<rparr>) (sort_key (\<lambda>x. datetime_key (transaction_date x)) txs)"
  by (induction txs) (auto simp: insort_key_fee)

lemma update_fresh: "k \<notin> set (map fst d) \<Longrightarrow> AList.update k v d = d @ [(k, v)]"
  by (induction d) auto

lemma process_tx_distinct:
  assumes "process_tx tx (inventory, realized_gains, out) = Inr (inventory', realized_gains', out')"
    and "distinct (map fst inventory)"
  shows "distinct (map fst inventory')"
proof -
  consider "transaction_type tx = ''buy'' \<or> transaction_type tx = ''transfer_in''"
    | "transaction_type tx = ''sell'' \<or> transaction_type tx = ''transfer_out''"
    | "\<not> (transaction_type tx = ''buy'' \<or> transaction_type tx = ''transfer_in'')"
      "\<not> (transaction_type tx = ''sell'' \<or> transaction_type tx = ''transfer_out'')"
    by blast
  then show ?thesis
  proof cases
    case 1 with assms show ?thesis by (auto simp: process_tx_buy intro: distinct_update)
  next
    case 2 with assms show ?thesis
      by (auto simp: process_tx_sell split: prod.splits intro: distinct_update)
  next
    case 3 with assms show ?thesis
      by (auto simp: process_tx_other setdefault_nil_def intro: distinct_update)
  qed
qed

lemma for_loop_distinct:
  "for_loop txs (inventory, realized_gains, out) = Inr (inventory', realized_gains', out') \<Longrightarrow>
   distinct (map fst inventory) \<Longrightarrow> distinct (map fst inventory')"
proof (induction txs arbitrary: inventory realized_gains out)
  case Nil
  then show ?case by simp
next
  case (Cons tx txs)
  obtain i1 g1 o1 where 1: "process_tx tx (inventory, realized_gains, out) = Inr (i1, g1, o1)"
    using process_tx_total [of tx "(inventory, realized_gains, out)"] by (metis prod_cases3)
  with Cons.prems have 2: "for_loop txs (i1, g1, o1) = Inr (inventory', realized_gains', out')"
    by simp
  from Cons.IH [OF 2 process_tx_distinct [OF 1 Cons.prems(2)]] show ?case .
qed

lemma process_transactions_distinct:
  assumes "process_transactions c = Inr (res, c', out)"
  shows "distinct (map fst (res_inventory res))"
proof -
  from assms have "for_loop (self_transactions c) ([], [], [])
      = Inr (res_inventory res, res_realized_gains res, out)"
    by (auto simp: process_transactions_def split: sum.splits prod.splits)
  from for_loop_distinct [OF this] show ?thesis by simp
qed

lemma summary_loop_eq:
  "distinct (map fst items) \<Longrightarrow> set (map fst items) \<inter> set (map fst acc) = {} \<Longrightarrow>
   summary_loop items acc =
     Inr (acc @ map (\<lambda>e. (fst e, lot_summary (snd e)))
                  (filter (\<lambda>e. 0 < sum_list (map fst (snd e))) items))"
proof (induction items arbitrary: acc)
  case Nil
  then show ?case by simp
next
  case (Cons e items)
  obtain symbol lots where e: "e = (symbol, lots)" by (cases e) auto
  show ?case
  proof (cases "0 < sum_list (map fst lots)")
    case True
    have f: "symbol \<notin> set (map fst acc)" using Cons.prems(2) e by auto
    have d: "distinct (map fst items)" using Cons.prems(1) by simp
    have i: "set (map fst items) \<inter> set (map fst (acc @ [(symbol, lot_summary lots)])) = {}"
      using Cons.prems e by auto
    show ?thesis
      using True Cons.IH [OF d i]
      by (simp add: e Let_def py_div_def update_fresh [OF f] lot_summary_def)
  next
    case False
    have d: "distinct (map fst items)" using Cons.prems(1) by simp
    have i: "set (map fst items) \<inter> set (map fst acc) = {}" using Cons.prems(2) by auto
    show ?thesis using False Cons.IH [OF d i] by (simp add: e Let_def)
  qed
qed

lemma prices_loop_eq:
  "distinct (map fst items) \<Longrightarrow> set (map fst items) \<inter> set (map fst acc) = {} \<Longrightarrow>
   prices_loop current_prices items (acc, t) =
     (acc @ map (\<lambda>e. (fst e, unrealized_of (the (current_prices (fst e))) (snd e)))
              (filter (\<lambda>e. current_prices (fst e) \<noteq> None) items),
      t + sum_list (map (\<lambda>e. u_unrealized_gain (unrealized_of (the (current_prices (fst e))) (snd e)))
              (filter (\<lambda>e. current_prices (fst e) \<noteq> None) items)))"
proof (induction items arbitrary: acc t)
  case Nil
  then show ?case by simp
next
  case (Cons e items)
  obtain symbol item where e: "e = (symbol, item)" by (cases e) auto
  have d: "distinct (map fst items)" using Cons.prems(1) by simp
  show ?case
  proof (cases "current_prices symbol")
    case None
    have i: "set (map fst items) \<inter> set (map fst acc) = {}" using Cons.prems(2) by auto
    show ?thesis using None Cons.IH [OF d i] by (simp add: e)
  next
    case (Some p)
    have f: "symbol \<notin> set (map fst acc)" using Cons.prems(2) e by auto
    have i: "set (map fst items) \<inter> set (map fst (acc @ [(symbol, unrealized_of p item)])) = {}"
      using Cons.prems e by auto
    show ?thesis
      using Some Cons.IH [OF d i]
      by (simp add: e Let_def update_fresh [OF f] unrealized_of_def algebra_simps)
  qed
qed

lemma get_current_inventory_eq:
  "\<exists>res c' out. process_transactions c = Inr (res, c', out) \<and>
     get_current_inventory c =
       Inr (map (\<lambda>e. (fst e, lot_summary (snd e)))
              (filter (\<lambda>e. 0 < sum_list (map fst (snd e))) (res_inventory res)), c', out)"
proof -
  obtain res c' out where p: "process_transactions c = Inr (res, c', out)"
    using process_transactions_total [of c] by blast
  have "summary_loop (res_inventory res) [] =
          Inr ([] @ map (\<lambda>e. (fst e, lot_summary (snd e)))
                 (filter (\<lambda>e. 0 < sum_list (map fst (snd e))) (res_inventory res)))"
    by (rule summary_loop_eq [OF process_transactions_distinct [OF p]]) simp
  with p show ?thesis by (simp add: get_current_inventory_def)
qed

lemma distinct_map_filter_fst:
  "distinct (map fst xs) \<Longrightarrow> distinct (map fst (map (\<lambda>e. (fst e, f (snd e))) (filter P xs)))"
  by (induction xs) auto

lemma process_tx_other_symbol:
  assumes "process_tx tx (inventory, realized_gains, out) = Inr (inventory', realized_gains', out')"
    and "crypto_symbol tx \<noteq> s"
  shows "entries_of inventory' s = entries_of inventory s \<and>
         entries_of realized_gains' s = entries_of realized_gains s"
proof -
  consider "transaction_type tx = ''buy'' \<or> transaction_type tx = ''transfer_in''"
    | "transaction_type tx = ''sell'' \<or> transaction_type tx = ''transfer_out''"
    | "\<not> (transaction_type tx = ''buy'' \<or> transaction_type tx = ''transfer_in'')"
      "\<not> (transaction_type tx = ''sell'' \<or> transaction_type tx = ''transfer_out'')"
    by blast
  then show ?thesis
  proof cases
    case 1 with assms show ?thesis by (auto simp: process_tx_buy)
  next
    case 2 with assms show ?thesis by (auto simp: process_tx_sell split: prod.splits)
  next
    case 3 with assms show ?thesis by (auto simp: process_tx_other)
  qed
qed

lemma for_loop_other_symbol:
  "for_loop txs (inventory, realized_gains, out) = Inr (inventory', realized_gains', out') \<Longrightarrow>
   \<forall>tx\<in>set txs. crypto_symbol tx \<noteq> s \<Longrightarrow>
   entries_of inventory' s = entries_of inventory s \<and>
   entries_of realized_gains' s = entries_of realized_gains s"
proof (induction txs arbitrary: inventory realized_gains out)
  case Nil
  then show ?case by simp
next
  case (Cons tx txs)
  obtain i1 g1 o1 where 1: "process_tx tx (inventory, realized_gains, out) = Inr (i1, g1, o1)"
    using process_tx_total [of tx "(inventory, realized_gains, out)"] by (metis prod_cases3)
  with Cons.prems have 2: "for_loop txs (i1, g1, o1) = Inr (inventory', realized_gains', out')"
    by simp
  have a: "crypto_symbol tx \<noteq> s" and b: "\<forall>tx\<in>set txs. crypto_symbol tx \<noteq> s"
    using Cons.prems(2) by auto
  from process_tx_other_symbol [OF 1 a] Cons.IH [OF 2 b] show ?case by simp
qed

lemma load_transactions_sorted:
  "sorted (map (\<lambda>x. datetime_key (transaction_date x)) (self_transactions (load_transactions c txs)))"
  by (simp add: load_transactions_def)

lemma gains_loop_eq:
  "gains_loop y gains (s, l, t) =
     (s + sum_list (map rg_gain (filter (\<lambda>g. rg_term g = ''short'')
                                 (filter (\<lambda>g. \<not> year_skips y g) gains))),
      l + sum_list (map rg_gain (filter (\<lambda>g. rg_term g \<noteq> ''short'')
                                 (filter (\<lambda>g. \<not> year_skips y g) gains))),
      t @ filter (\<lambda>g. \<not> year_skips y g) gains)"
  by (induction gains arbitrary: s l t) (auto simp: algebra_simps)

lemma symbols_loop_eq:
  "symbols_loop y items (s, l, t) = gains_loop y (all_entries items) (s, l, t)"
proof (induction items arbitrary: s l t)
  case Nil
  then show ?case by simp
next
  case (Cons e items)
  obtain symbol gains where e: "e = (symbol, gains)" by (cases e) auto
  show ?case
    by (simp add: e gains_loop_eq Cons.IH algebra_simps)
qed

lemma year_skips_filter:
  "filter (\<lambda>g. \<not> year_skips y g) gains =
     (case y of None \<Rightarrow> gains
      | Some n \<Rightarrow> if n = 0 then gains else filter (\<lambda>g. year (rg_sell_date g) = n) gains)"
  by (cases y) (auto simp: year_skips_def)

lemmas example_defs2 = btc_buy_jan_def btc_buy_jun_def btc_sell_15_def empty_calculator_def
  btc_buy2_def btc_sell_365_def btc_sell_366_def load_transactions_def

section \<open>Claims about the realized gains\<close>

lemma make_gain_fields:
  "rg_buy_date (make_gain tx u p d i) = d"
  "rg_sell_date (make_gain tx u p d i) = transaction_date tx"
  "rg_buy_price (make_gain tx u p d i) = p"
  "rg_sell_price (make_gain tx u p d i) = price_per_unit tx"
  "rg_quantity (make_gain tx u p d i) = u"
  "rg_buy_transaction_id (make_gain tx u p d i) = i"
  "rg_sell_transaction_id (make_gain tx u p d i) = tx_id tx"
  by (simp_all add: make_gain_def Let_def)

lemma fifo_lots_two:
  "0 < r \<Longrightarrow>
   snd (snd (fifo_lots tx r [(q1, p1, d1, i1), (q2, p2, d2, i2)])) =
     (if r \<le> q1 then [make_gain tx (min q1 r) p1 d1 i1]
      else [make_gain tx (min q1 r) p1 d1 i1, make_gain tx (min q2 (r - q1)) p2 d2 i2])"
  by (auto simp: min_def)

lemma process_tx_gains_append:
  assumes "process_tx tx (inventory, realized_gains, out) = Inr (inventory', realized_gains', out')"
  shows "\<exists>later. entries_of realized_gains' s = entries_of realized_gains s @ later"
proof -
  consider "transaction_type tx = ''buy'' \<or> transaction_type tx = ''transfer_in''"
    | "transaction_type tx = ''sell'' \<or> transaction_type tx = ''transfer_out''"
    | "\<not> (transaction_type tx = ''buy'' \<or> transaction_type tx = ''transfer_in'')"
      "\<not> (transaction_type tx = ''sell'' \<or> transaction_type tx = ''transfer_out'')"
    by blast
  then show ?thesis
  proof cases
    case 1 with assms show ?thesis by (auto simp: process_tx_buy)
  next
    case 2 with assms show ?thesis by (auto simp: process_tx_sell split: prod.splits)
  next
    case 3 with assms show ?thesis by (auto simp: process_tx_other)
  qed
qed

lemma for_loop_gains_append:
  "for_loop txs (inventory, realized_gains, out) = Inr (inventory', realized_gains', out') \<Longrightarrow>
   \<exists>later. entries_of realized_gains' s = entries_of realized_gains s @ later"
proof (induction txs arbitrary: inventory realized_gains out)
  case Nil
  then show ?case by simp
next
  case (Cons tx txs)
  obtain i1 g1 o1 where 1: "process_tx tx (inventory, realized_gains, out) = Inr (i1, g1, o1)"
    using process_tx_total [of tx "(inventory, realized_gains, out)"] by (metis prod_cases3)
  with Cons.prems have 2: "for_loop txs (i1, g1, o1) = Inr (inventory', realized_gains', out')"
    by simp
  from process_tx_gains_append [OF 1, of s] Cons.IH [OF 2] show ?case by auto
qed

lemma process_tx_buy_entries:
  assumes "transaction_type tx = ''buy'' \<or> transaction_type tx = ''transfer_in''"
  shows "\<exists>inventory' realized_gains'.
     process_tx tx (inventory, realized_gains, out) = Inr (inventory', realized_gains', out) \<and>
     entries_of inventory' (crypto_symbol tx) =
       entries_of inventory (crypto_symbol tx)
         @ [(quantity tx, price_per_unit tx, transaction_date tx, tx_id tx)] \<and>
     entries_of realized_gains' (crypto_symbol tx) = entries_of realized_gains (crypto_symbol tx)"
  by (simp add: process_tx_buy [OF assms])

lemma for_loop_other_symbol_run:
  assumes "\<forall>tx\<in>set txs. crypto_symbol tx \<noteq> s"
  shows "\<exists>inventory' realized_gains' out'.
     for_loop txs (inventory, realized_gains, out) = Inr (inventory', realized_gains', out') \<and>
     entries_of inventory' s = entries_of inventory s \<and>
     entries_of realized_gains' s = entries_of realized_gains s"
proof -
  obtain i1 g1 o1 where 1: "for_loop txs (inventory, realized_gains, out) = Inr (i1, g1, o1)"
    using for_loop_total [of txs "(inventory, realized_gains, out)"] by (metis prod_cases3)
  from for_loop_other_symbol [OF 1 assms] 1 show ?thesis by simp
qed

text \<open>
  C4. Let the transactions of a loaded calculator (sorted by date, line 45) contain, in
  this order, two buys (or transfers in) \<open>b1\<close>, \<open>b2\<close> of a symbol and a sell (or transfer
  out) \<open>s\<close> of a positive quantity of it, where the transactions before \<open>s\<close> other than
  \<open>b1\<close> and \<open>b2\<close> are of other symbols and those after \<open>s\<close> are arbitrary. Then \<open>b1\<close> is
  dated no later than \<open>b2\<close>, and the realized gains of the symbol begin with the gains of
  \<open>s\<close>, oldest lot first. The first gain has the buy date, buy price and buy id of \<open>b1\<close>
  and the smaller of the quantity of \<open>b1\<close> and the quantity sold. If the quantity sold is
  at most that of \<open>b1\<close> it is the only gain of \<open>s\<close>. Otherwise the first gain has the whole
  quantity of \<open>b1\<close> and the second gain of \<open>s\<close> has the buy date, buy price and buy id of
  \<open>b2\<close>, for what is left to sell, at most the quantity of \<open>b2\<close>. Both gains have the date,
  price and id of \<open>s\<close>. Gains listed after them come from the transactions after \<open>s\<close>:
  there are none when those are all of other symbols.
\<close>

theorem fifo_oldest_lot_first:
  assumes "self_transactions (load_transactions c0 txs) = A @ b1 # B @ b2 # C @ s # D"
    and "\<forall>tx\<in>set (A @ B @ C). crypto_symbol tx \<noteq> crypto_symbol s"
    and "transaction_type b1 = ''buy'' \<or> transaction_type b1 = ''transfer_in''"
    and "transaction_type b2 = ''buy'' \<or> transaction_type b2 = ''transfer_in''"
    and "transaction_type s = ''sell'' \<or> transaction_type s = ''transfer_out''"
    and "crypto_symbol b1 = crypto_symbol s" and "crypto_symbol b2 = crypto_symbol s"
    and "0 < quantity s"
  shows "datetime_key (transaction_date b1) \<le> datetime_key (transaction_date b2) \<and>
         datetime_key (transaction_date b2) \<le> datetime_key (transaction_date s) \<and>
         (\<exists>res c' out g1 g2 later.
            process_transactions (load_transactions c0 txs) = Inr (res, c', out) \<and>
            entries_of (res_realized_gains res) (crypto_symbol s) =
              (if quantity s \<le> quantity b1 then [g1] else [g1, g2]) @ later \<and>
            ((\<forall>tx\<in>set D. crypto_symbol tx \<noteq> crypto_symbol s) \<longrightarrow> later = []) \<and>
            rg_buy_date g1 = transaction_date b1 \<and>
            rg_buy_price g1 = price_per_unit b1 \<and>
            rg_buy_transaction_id g1 = tx_id b1 \<and>
            rg_quantity g1 = min (quantity b1) (quantity s) \<and>
            rg_sell_date g1 = transaction_date s \<and>
            rg_sell_price g1 = price_per_unit s \<and>
            rg_sell_transaction_id g1 = tx_id s \<and>
            rg_buy_date g2 = transaction_date b2 \<and>
            rg_buy_price g2 = price_per_unit b2 \<and>
            rg_buy_transaction_id g2 = tx_id b2 \<and>
            rg_quantity g2 = min (quantity b2) (quantity s - quantity b1) \<and>
            rg_sell_date g2 = transaction_date s \<and>
            rg_sell_price g2 = price_per_unit s \<and>
            rg_sell_transaction_id g2 = tx_id s)"
proof -
  let ?X = "crypto_symbol s"
  let ?g1 = "make_gain s (min (quantity b1) (quantity s)) (price_per_unit b1)
               (transaction_date b1) (tx_id b1)"
  let ?g2 = "make_gain s (min (quantity b2) (quantity s - quantity b1)) (price_per_unit b2)
               (transaction_date b2) (tx_id b2)"
  let ?gs = "if quantity s \<le> quantity b1 then [?g1] else [?g1, ?g2]"
  have "sorted (map (\<lambda>x. datetime_key (transaction_date x)) (A @ b1 # B @ b2 # C @ s # D))"
    using load_transactions_sorted [of c0 txs] assms(1) by simp
  then have dates: "datetime_key (transaction_date b1) \<le> datetime_key (transaction_date b2)"
      "datetime_key (transaction_date b2) \<le> datetime_key (transaction_date s)"
    by (auto simp: sorted_append)
  have nA: "\<forall>tx\<in>set A. crypto_symbol tx \<noteq> ?X" and nB: "\<forall>tx\<in>set B. crypto_symbol tx \<noteq> ?X"
    and nC: "\<forall>tx\<in>set C. crypto_symbol tx \<noteq> ?X"
    using assms(2) by auto
  obtain iA gA oA where rA: "for_loop A ([], [], []) = Inr (iA, gA, oA)"
    and eA: "entries_of iA ?X = []" "entries_of gA ?X = []"
    using for_loop_other_symbol_run [OF nA, of "[]" "[]" "[]"] by (auto simp: entries_of_def)
  obtain i1 g1 where r1: "process_tx b1 (iA, gA, oA) = Inr (i1, g1, oA)"
    and e1: "entries_of i1 ?X = [(quantity b1, price_per_unit b1, transaction_date b1, tx_id b1)]"
      "entries_of g1 ?X = []"
    using process_tx_buy_entries [OF assms(3), of iA gA oA] eA assms(6) by auto
  obtain iB gB oB where rB: "for_loop B (i1, g1, oA) = Inr (iB, gB, oB)"
    and eB: "entries_of iB ?X = [(quantity b1, price_per_unit b1, transaction_date b1, tx_id b1)]"
      "entries_of gB ?X = []"
    using for_loop_other_symbol_run [OF nB, of i1 g1 oA] e1 by auto
  obtain i2 g2 where r2: "process_tx b2 (iB, gB, oB) = Inr (i2, g2, oB)"
    and e2: "entries_of i2 ?X = [(quantity b1, price_per_unit b1, transaction_date b1, tx_id b1),
                                 (quantity b2, price_per_unit b2, transaction_date b2, tx_id b2)]"
      "entries_of g2 ?X = []"
    using process_tx_buy_entries [OF assms(4), of iB gB oB] eB assms(7) by auto
  obtain iC gC oC where rC: "for_loop C (i2, g2, oB) = Inr (iC, gC, oC)"
    and eC: "entries_of iC ?X = [(quantity b1, price_per_unit b1, transaction_date b1, tx_id b1),
                                 (quantity b2, price_per_unit b2, transaction_date b2, tx_id b2)]"
      "entries_of gC ?X = []"
    using for_loop_other_symbol_run [OF nC, of i2 g2 oB] e2 by auto
  obtain r' lots' gs where f: "fifo_lots s (quantity s) (entries_of iC ?X) = (r', lots', gs)"
    by (metis prod_cases3)
  have gs: "gs = ?gs"
    using fifo_lots_two [OF assms(8), of s "quantity b1" "price_per_unit b1" "transaction_date b1"
        "tx_id b1" "quantity b2" "price_per_unit b2" "transaction_date b2" "tx_id b2"] f eC(1)
    by simp
  obtain iS gS oS where rS: "process_tx s (iC, gC, oC) = Inr (iS, gS, oS)"
    and eS: "entries_of gS ?X = ?gs"
    using f gs eC(2) by (simp add: process_tx_sell [OF assms(5)])
  obtain iD gD oD where rD: "for_loop D (iS, gS, oS) = Inr (iD, gD, oD)"
    using for_loop_total [of D "(iS, gS, oS)"] by (metis prod_cases3)
  obtain later where l: "entries_of gD ?X = ?gs @ later"
    using for_loop_gains_append [OF rD, of ?X] eS by auto
  have l0: "later = []" if "\<forall>tx\<in>set D. crypto_symbol tx \<noteq> ?X"
    using for_loop_other_symbol [OF rD that] eS l by simp
  have "for_loop (A @ b1 # B @ b2 # C @ s # D) ([], [], []) = Inr (iD, gD, oD)"
    using rA r1 rB r2 rC rS rD by (simp add: for_loop_append)
  then have "\<exists>res c'. process_transactions (load_transactions c0 txs) = Inr (res, c', oD) \<and>
      res_realized_gains res = gD"
    using assms(1) by (simp add: process_transactions_def)
  then obtain res c' where run: "process_transactions (load_transactions c0 txs) = Inr (res, c', oD)"
    and rg: "res_realized_gains res = gD"
    by blast
  have l': "entries_of (res_realized_gains res) ?X = ?gs @ later"
    using l rg by simp
  have fields: "rg_buy_date ?g1 = transaction_date b1" "rg_buy_price ?g1 = price_per_unit b1"
      "rg_buy_transaction_id ?g1 = tx_id b1" "rg_quantity ?g1 = min (quantity b1) (quantity s)"
      "rg_sell_date ?g1 = transaction_date s" "rg_sell_price ?g1 = price_per_unit s"
      "rg_sell_transaction_id ?g1 = tx_id s"
      "rg_buy_date ?g2 = transaction_date b2" "rg_buy_price ?g2 = price_per_unit b2"
      "rg_buy_transaction_id ?g2 = tx_id b2"
      "rg_quantity ?g2 = min (quantity b2) (quantity s - quantity b1)"
      "rg_sell_date ?g2 = transaction_date s" "rg_sell_price ?g2 = price_per_unit s"
      "rg_sell_transaction_id ?g2 = tx_id s"
    by (simp_all add: make_gain_fields)
  have "\<exists>res c' out g1 g2 later.
            process_transactions (load_transactions c0 txs) = Inr (res, c', out) \<and>
            entries_of (res_realized_gains res) (crypto_symbol s) =
              (if quantity s \<le> quantity b1 then [g1] else [g1, g2]) @ later \<and>
            ((\<forall>tx\<in>set D. crypto_symbol tx \<noteq> crypto_symbol s) \<longrightarrow> later = []) \<and>
            rg_buy_date g1 = transaction_date b1 \<and>
            rg_buy_price g1 = price_per_unit b1 \<and>
            rg_buy_transaction_id g1 = tx_id b1 \<and>
            rg_quantity g1 = min (quantity b1) (quantity s) \<and>
            rg_sell_date g1 = transaction_date s \<and>
            rg_sell_price g1 = price_per_unit s \<and>
            rg_sell_transaction_id g1 = tx_id s \<and>
            rg_buy_date g2 = transaction_date b2 \<and>
            rg_buy_price g2 = price_per_unit b2 \<and>
            rg_buy_transaction_id g2 = tx_id b2 \<and>
            rg_quantity g2 = min (quantity b2) (quantity s - quantity b1) \<and>
            rg_sell_date g2 = transaction_date s \<and>
            rg_sell_price g2 = price_per_unit s \<and>
            rg_sell_transaction_id g2 = tx_id s"
    using run l' l0 fields by blast
  with dates show ?thesis by blast
qed

theorem fifo_oldest_lot_first_witness:
  "\<exists>res c' out.
     process_transactions (load_transactions empty_calculator
         [btc_sell_15, eth_sell_feb, btc_buy_jun, eth_buy_mar, btc_buy_jan])
       = Inr (res, c', out) \<and>
     map (\<lambda>g. (rg_buy_date g, rg_buy_price g, rg_quantity g))
         (entries_of (res_realized_gains res) ''BTC'')
       = [(date_at 2022 1 1, 10000, 1), (date_at 2022 6 1, 20000, 1 / 2)]"
proof -
  have "self_transactions (load_transactions empty_calculator
          [btc_sell_15, eth_sell_feb, btc_buy_jun, eth_buy_mar, btc_buy_jan])
        = [] @ btc_buy_jan # [eth_buy_mar] @ btc_buy_jun # [] @ btc_sell_15 # [eth_sell_feb]"
    by (simp add: example_defs example_defs2 eth_buy_mar_def eth_sell_feb_def)
  from fifo_oldest_lot_first [OF this]
  have "\<exists>res c' out g1 g2.
          process_transactions (load_transactions empty_calculator
              [btc_sell_15, eth_sell_feb, btc_buy_jun, eth_buy_mar, btc_buy_jan])
            = Inr (res, c', out) \<and>
          entries_of (res_realized_gains res) ''BTC'' = [g1, g2] \<and>
          rg_buy_date g1 = date_at 2022 1 1 \<and> rg_buy_price g1 = 10000 \<and> rg_quantity g1 = 1 \<and>
          rg_buy_date g2 = date_at 2022 6 1 \<and> rg_buy_price g2 = 20000 \<and> rg_quantity g2 = 1 / 2"
    by (simp add: example_defs example_defs2 eth_buy_mar_def eth_sell_feb_def) blast
  then show ?thesis by auto
qed

text \<open>
  C6. Every realized gain returned by \<open>process_transactions\<close> has term \<^verbatim>\<open>short\<close> exactly
  when its holding period is at most 365 days and term \<^verbatim>\<open>long\<close> exactly when it is more
  than 365 days, the holding period being the whole days from the buy date to the sell
  date. The example has a gain held 365 days (short) and one held 366 days (long).
\<close>

theorem term_short_iff_at_most_365_days:
  assumes "process_transactions c = Inr (res, c', out)"
    and "g \<in> set (all_entries ((res_realized_gains res)))"
  shows "(rg_term g = ''short'' \<longleftrightarrow> rg_holding_period_days g \<le> 365) \<and>
         (rg_term g = ''long'' \<longleftrightarrow> 365 < rg_holding_period_days g) \<and>
         rg_holding_period_days g = timedelta_days (rg_sell_date g) (rg_buy_date g)"
  using process_transactions_gain_ok [OF assms] by (auto simp: gain_ok_def)

theorem term_short_iff_at_most_365_days_witness:
  "process_transactions (new_calculator [btc_buy2, btc_sell_365, btc_sell_366])
     = Inr (\<lparr>res_realized_gains =
               [(''BTC'', [make_gain btc_sell_365 1 10000 (date_at 2022 1 1) (Some 1),
                           make_gain btc_sell_366 1 10000 (date_at 2022 1 1) (Some 1)])],
             res_inventory = [(''BTC'', [])]\<rparr>,
            new_calculator [btc_buy2, btc_sell_365, btc_sell_366]
              \<lparr>self_inventory := [(''BTC'', [])]\<rparr>, []) \<and>
   rg_holding_period_days (make_gain btc_sell_365 1 10000 (date_at 2022 1 1) (Some 1)) = 365 \<and>
   rg_term (make_gain btc_sell_365 1 10000 (date_at 2022 1 1) (Some 1)) = ''short'' \<and>
   rg_holding_period_days (make_gain btc_sell_366 1 10000 (date_at 2022 1 1) (Some 1)) = 366 \<and>
   rg_term (make_gain btc_sell_366 1 10000 (date_at 2022 1 1) (Some 1)) = ''long''"
proof -
  let ?g1 = "make_gain btc_sell_365 1 10000 (date_at 2022 1 1) (Some 1)"
  let ?g2 = "make_gain btc_sell_366 1 10000 (date_at 2022 1 1) (Some 1)"
  let ?res = "\<lparr>res_realized_gains = [(''BTC'', [?g1, ?g2])], res_inventory = [(''BTC'', [])]\<rparr>"
  let ?c = "new_calculator [btc_buy2, btc_sell_365, btc_sell_366]"
  have run: "process_transactions ?c = Inr (?res, ?c\<lparr>self_inventory := [(''BTC'', [])]\<rparr>, [])"
    by (simp add: example_defs example_defs2 process_transactions_def process_tx_buy
          process_tx_sell entries_of_def setdefault_nil_def)
  have d1: "rg_holding_period_days ?g1 = 365" and d2: "rg_holding_period_days ?g2 = 366"
    by (simp_all add: example_defs example_defs2 run_defs)
  have "?g1 \<in> set (all_entries (res_realized_gains ?res))"
    and "?g2 \<in> set (all_entries (res_realized_gains ?res))"
    by simp_all
  from term_short_iff_at_most_365_days [OF run this(1)]
       term_short_iff_at_most_365_days [OF run this(2)] d1 d2 run
  show ?thesis by simp
qed

text \<open>
  What \<open>calculate_realized_gains\<close> computes: it always returns; its transaction detail is
  the list of the realized gains of \<open>process_transactions\<close>, symbol by symbol, from which
  line 164 drops the gains whose sell year differs from the year given, unless the year
  is omitted or is 0; the short-term and long-term totals are the sums of the gains of the
  detail with term \<^verbatim>\<open>short\<close> and \<^verbatim>\<open>long\<close>, and the total is their sum.
\<close>

lemma calculate_realized_gains_detail:
  "\<exists>sm res c' out.
     calculate_realized_gains c y = Inr (sm, c', out) \<and>
     process_transactions c = Inr (res, c', out) \<and>
     sum_transactions sm =
       (case y of None \<Rightarrow> all_entries (res_realized_gains res)
        | Some n \<Rightarrow> if n = 0 then all_entries (res_realized_gains res)
                    else filter (\<lambda>g. year (rg_sell_date g) = n) (all_entries (res_realized_gains res))) \<and>
     short_term_gains sm =
       sum_list (map rg_gain (filter (\<lambda>g. rg_term g = ''short'') (sum_transactions sm))) \<and>
     long_term_gains sm =
       sum_list (map rg_gain (filter (\<lambda>g. rg_term g = ''long'') (sum_transactions sm))) \<and>
     total_gains sm = short_term_gains sm + long_term_gains sm"
proof -
  obtain res c' out where p: "process_transactions c = Inr (res, c', out)"
    using process_transactions_total [of c] by blast
  let ?all = "all_entries (res_realized_gains res)"
  let ?kept = "filter (\<lambda>g. \<not> year_skips y g) ?all"
  have "\<forall>g\<in>set ?kept. (rg_term g \<noteq> ''short'') = (rg_term g = ''long'')"
    using process_transactions_gain_ok [OF p] by (auto simp: gain_ok_def)
  then have long: "filter (\<lambda>g. rg_term g \<noteq> ''short'') ?kept = filter (\<lambda>g. rg_term g = ''long'') ?kept"
    by (intro filter_cong) auto
  show ?thesis
    using p long
    by (simp add: calculate_realized_gains_def symbols_loop_eq gains_loop_eq
          year_skips_filter [symmetric])
qed

text \<open>
  C7 fails on the code for the year 0. Line 163 says \<^verbatim>\<open>Filter by year if specified\<close>, but
  line 164 tests the truth value of \<^verbatim>\<open>year\<close>, which is false for 0 as it is for
  \<^verbatim>\<open>None\<close>. For a calculator with one gain sold in 2023, the year 0 returns that gain and
  its total of 1000, where the claim asks for the gains sold in the year 0, that is none;
  the year 1 returns no gain and a total of 0, and the year 2023 returns the gain.
\<close>

theorem realized_gains_year_zero_not_filtered:
  "map_sum id (\<lambda>r. map (\<lambda>g. year (rg_sell_date g)) (sum_transactions (fst r)))
     (calculate_realized_gains (new_calculator [eth_buy3, eth_sell2]) (Some 0)) = Inr [2023] \<and>
   map_sum id (\<lambda>r. total_gains (fst r))
     (calculate_realized_gains (new_calculator [eth_buy3, eth_sell2]) (Some 0)) = Inr 1000 \<and>
   map_sum id (\<lambda>r. map (\<lambda>g. year (rg_sell_date g)) (sum_transactions (fst r)))
     (calculate_realized_gains (new_calculator [eth_buy3, eth_sell2]) (Some 1)) = Inr [] \<and>
   map_sum id (\<lambda>r. total_gains (fst r))
     (calculate_realized_gains (new_calculator [eth_buy3, eth_sell2]) (Some 1)) = Inr 0 \<and>
   map_sum id (\<lambda>r. map (\<lambda>g. year (rg_sell_date g)) (sum_transactions (fst r)))
     (calculate_realized_gains (new_calculator [eth_buy3, eth_sell2]) (Some 2023)) = Inr [2023]"
  by (simp add: example_defs run_defs calculate_realized_gains_def year_skips_def)

section \<open>Claims about the unrealized gains\<close>

text \<open>
  C8. \<open>calculate_unrealized_gains\<close> returns for every calculator and every price map. The
  symbols of its \<^verbatim>\<open>by_symbol\<close> are the held symbols (those of \<open>get_current_inventory\<close>) that
  the price map has, in order: a held symbol absent from the price map is left out. The
  total is the sum of the unrealized gains of the symbols included. With the empty price
  map \<^verbatim>\<open>by_symbol\<close> is empty and the total is 0.
\<close>

theorem unrealized_gains_skip_missing_prices:
  "\<exists>r inventory c' out.
     calculate_unrealized_gains c current_prices = Inr (r, c', out) \<and>
     get_current_inventory c = Inr (inventory, c', out) \<and>
     map fst (by_symbol r) = filter (\<lambda>s. current_prices s \<noteq> None) (map fst inventory) \<and>
     total_unrealized_gain r = sum_list (map (\<lambda>e. u_unrealized_gain (snd e)) (by_symbol r)) \<and>
     (current_prices = Map.empty \<longrightarrow> by_symbol r = [] \<and> total_unrealized_gain r = 0)"
proof -
  obtain res c' out where p: "process_transactions c = Inr (res, c', out)"
    and g: "get_current_inventory c =
       Inr (map (\<lambda>e. (fst e, lot_summary (snd e)))
              (filter (\<lambda>e. 0 < sum_list (map fst (snd e))) (res_inventory res)), c', out)"
    using get_current_inventory_eq [of c] by blast
  define inventory where "inventory = map (\<lambda>e. (fst e, lot_summary (snd e)))
              (filter (\<lambda>e. 0 < sum_list (map fst (snd e))) (res_inventory res))"
  have d: "distinct (map fst inventory)"
    unfolding inventory_def
    by (rule distinct_map_filter_fst [OF process_transactions_distinct [OF p]])
  have l: "prices_loop current_prices inventory ([], 0) =
     ([] @ map (\<lambda>e. (fst e, unrealized_of (the (current_prices (fst e))) (snd e)))
              (filter (\<lambda>e. current_prices (fst e) \<noteq> None) inventory),
      0 + sum_list (map (\<lambda>e. u_unrealized_gain (unrealized_of (the (current_prices (fst e))) (snd e)))
              (filter (\<lambda>e. current_prices (fst e) \<noteq> None) inventory)))"
    by (rule prices_loop_eq [OF d]) simp
  have k: "map fst (map (\<lambda>e. (fst e, unrealized_of (the (current_prices (fst e))) (snd e)))
              (filter (\<lambda>e. current_prices (fst e) \<noteq> None) xs))
           = filter (\<lambda>s. current_prices s \<noteq> None) (map fst xs)" for xs :: "(string \<times> inventory_item) list"
    by (induction xs) auto
  show ?thesis
    using g l k [of inventory]
    by (simp add: calculate_unrealized_gains_def inventory_def [symmetric] comp_def)
qed

theorem unrealized_gains_skip_missing_prices_witness:
  "map_sum id fst (calculate_unrealized_gains (new_calculator [eth_buy3, eth_sell2]) Map.empty)
     = Inr \<lparr>by_symbol = [], total_unrealized_gain = 0\<rparr> \<and>
   map_sum id fst (calculate_unrealized_gains (new_calculator [eth_buy3, eth_sell2, btc_buy2])
       [''ETH'' \<mapsto> 2000])
     = Inr \<lparr>by_symbol =
              [(''ETH'', \<lparr>u_quantity = 1, u_average_cost = 1000, u_current_price = 2000,
                          u_market_value = 2000, u_cost_basis = 1000, u_unrealized_gain = 1000\<rparr>)],
            total_unrealized_gain = 1000\<rparr>"
proof -
  have "map_sum id fst (calculate_unrealized_gains (new_calculator [eth_buy3, eth_sell2]) Map.empty)
     = Inr \<lparr>by_symbol = [], total_unrealized_gain = 0\<rparr>"
    using unrealized_gains_skip_missing_prices [of "new_calculator [eth_buy3, eth_sell2]" Map.empty]
    by auto
  then show ?thesis
    by (simp add: example_defs example_defs2 run_defs calculate_unrealized_gains_def
          get_current_inventory_def py_div_def lot_dict_def)
qed

lemma process_transactions_with_fees:
  "process_transactions (with_fees f c) =
     (case process_transactions c of
        Inl e \<Rightarrow> Inl e
      | Inr (res, c', out) \<Rightarrow> Inr (res, with_fees f c', out))"
  by (simp add: process_transactions_def with_fees_def split: sum.splits prod.splits)

lemma calculate_unrealized_gains_eq:
  "\<exists>res c' out. process_transactions c = Inr (res, c', out) \<and>
     calculate_unrealized_gains c current_prices =
       Inr (\<lparr>by_symbol =
               map (\<lambda>e. (fst e, unrealized_of (the (current_prices (fst e))) (lot_summary (snd e))))
                 (filter (\<lambda>e. current_prices (fst e) \<noteq> None)
                    (filter (\<lambda>e. 0 < sum_list (map fst (snd e))) (res_inventory res))),
             total_unrealized_gain =
               sum_list (map (\<lambda>e. u_unrealized_gain
                                (unrealized_of (the (current_prices (fst e))) (lot_summary (snd e))))
                 (filter (\<lambda>e. current_prices (fst e) \<noteq> None)
                    (filter (\<lambda>e. 0 < sum_list (map fst (snd e))) (res_inventory res))))\<rparr>, c', out)"
proof -
  obtain res c' out where p: "process_transactions c = Inr (res, c', out)"
    and g: "get_current_inventory c =
       Inr (map (\<lambda>e. (fst e, lot_summary (snd e)))
              (filter (\<lambda>e. 0 < sum_list (map fst (snd e))) (res_inventory res)), c', out)"
    using get_current_inventory_eq [of c] by blast
  define inventory where "inventory = map (\<lambda>e. (fst e, lot_summary (snd e)))
              (filter (\<lambda>e. 0 < sum_list (map fst (snd e))) (res_inventory res))"
  have d: "distinct (map fst inventory)"
    unfolding inventory_def
    by (rule distinct_map_filter_fst [OF process_transactions_distinct [OF p]])
  have l: "prices_loop current_prices inventory ([], 0) =
     ([] @ map (\<lambda>e. (fst e, unrealized_of (the (current_prices (fst e))) (snd e)))
              (filter (\<lambda>e. current_prices (fst e) \<noteq> None) inventory),
      0 + sum_list (map (\<lambda>e. u_unrealized_gain (unrealized_of (the (current_prices (fst e))) (snd e)))
              (filter (\<lambda>e. current_prices (fst e) \<noteq> None) inventory)))"
    by (rule prices_loop_eq [OF d]) simp
  have f: "filter (\<lambda>e. current_prices (fst e) \<noteq> None) (map (\<lambda>e. (fst e, lot_summary (snd e))) xs)
      = map (\<lambda>e. (fst e, lot_summary (snd e))) (filter (\<lambda>e. current_prices (fst e) \<noteq> None) xs)"
    for xs :: inventory_dict
    by (induction xs) auto
  show ?thesis
    using p g l
    by (simp add: calculate_unrealized_gains_def inventory_def filter_map comp_def)
qed

lemma outcome_simps [simp]:
  "outcome (Inl e) = Inl e" "outcome (Inr (a, c, out)) = Inr (a, out)"
  by (simp_all add: outcome_def)

section \<open>Claim about fees\<close>

text \<open>
  C10. The fee of a transaction enters no computation of the calculator. Replacing every
  fee by any other value changes neither what \<open>process_transactions\<close>,
  \<open>calculate_realized_gains\<close> and \<open>calculate_unrealized_gains\<close> return and print, nor the
  order in which \<open>load_transactions\<close> sorts. The cost basis of every realized gain is its
  quantity times the buy price of its lot and its proceeds are its quantity times the
  sell price. The cost basis of every symbol of the unrealized gains is the sum, over the
  lots left in the queue of the symbol, of quantity times lot price.
\<close>

theorem fee_never_enters:
  "outcome (process_transactions (with_fees f c)) = outcome (process_transactions c) \<and>
   outcome (calculate_realized_gains (with_fees f c) y) = outcome (calculate_realized_gains c y) \<and>
   outcome (calculate_unrealized_gains (with_fees f c) current_prices)
     = outcome (calculate_unrealized_gains c current_prices) \<and>
   load_transactions c (map (\<lambda>tx. tx\<lparr>fee := f tx\<rparr>) txs) = with_fees f (load_transactions c txs) \<and>
   (\<forall>res c' out g.
      process_transactions c = Inr (res, c', out) \<longrightarrow>
      g \<in> set (all_entries (res_realized_gains res)) \<longrightarrow>
      rg_cost_basis g = rg_quantity g * rg_buy_price g \<and>
      rg_proceeds g = rg_quantity g * rg_sell_price g) \<and>
   (\<forall>r c' out res c'' out' s u.
      calculate_unrealized_gains c current_prices = Inr (r, c', out) \<longrightarrow>
      process_transactions c = Inr (res, c'', out') \<longrightarrow>
      (s, u) \<in> set (by_symbol r) \<longrightarrow>
      u_cost_basis u = sum_list (map (\<lambda>lot. fst lot * fst (snd lot)) (entries_of (res_inventory res) s)))"
proof -
  have 1: "outcome (process_transactions (with_fees f c)) = outcome (process_transactions c)"
    by (simp add: process_transactions_with_fees split: sum.splits)
  have 2: "outcome (calculate_realized_gains (with_fees f c) y) = outcome (calculate_realized_gains c y)"
    by (simp add: calculate_realized_gains_def process_transactions_with_fees
          split: sum.splits prod.splits)
  have 3: "outcome (calculate_unrealized_gains (with_fees f c) current_prices)
     = outcome (calculate_unrealized_gains c current_prices)"
    by (simp add: calculate_unrealized_gains_def get_current_inventory_def
          process_transactions_with_fees split: sum.splits prod.splits)
  have 4: "load_transactions c (map (\<lambda>tx. tx\<lparr>fee := f tx\<rparr>) txs) = with_fees f (load_transactions c txs)"
    by (simp add: load_transactions_def with_fees_def sort_key_fee)
  have 5: "rg_cost_basis g = rg_quantity g * rg_buy_price g \<and>
      rg_proceeds g = rg_quantity g * rg_sell_price g"
    if "process_transactions c = Inr (res, c', out)"
      "g \<in> set (all_entries (res_realized_gains res))" for res c' out g
    using process_transactions_gain_ok [OF that] by (simp add: gain_ok_def)
  have 6: "u_cost_basis u = sum_list (map (\<lambda>lot. fst lot * fst (snd lot)) (entries_of (res_inventory res) s))"
    if a: "calculate_unrealized_gains c current_prices = Inr (r, c', out)"
      and b: "process_transactions c = Inr (res, c'', out')"
      and m: "(s, u) \<in> set (by_symbol r)" for r c' out res c'' out' s u
  proof -
    from calculate_unrealized_gains_eq [of c current_prices] a b m
    obtain lots where l: "(s, lots) \<in> set (res_inventory res)" "0 < sum_list (map fst lots)"
      and u: "u = unrealized_of (the (current_prices s)) (lot_summary lots)"
      by auto
    have "map_of (res_inventory res) s = Some lots"
      using process_transactions_distinct [OF b] l(1) by simp
    then have "entries_of (res_inventory res) s = lots" by (simp add: entries_of_def)
    with l(2) u show ?thesis by (simp add: unrealized_of_def lot_summary_def)
  qed
  from 1 2 3 4 5 6 show ?thesis by blast
qed


theorem fee_never_enters_witness:
  "outcome (process_transactions (with_fees (\<lambda>tx. 25) (new_calculator [eth_buy3, eth_sell2])))
     = Inr (\<lparr>res_realized_gains =
               [(''ETH'', [make_gain eth_sell2 2 1000 (date_at 2023 1 10) (Some 1)])],
             res_inventory = [(''ETH'', [(1, 1000, date_at 2023 1 10, Some 1)])]\<rparr>, []) \<and>
   rg_cost_basis (make_gain eth_sell2 2 1000 (date_at 2023 1 10) (Some 1)) = 2000 \<and>
   rg_proceeds (make_gain eth_sell2 2 1000 (date_at 2023 1 10) (Some 1)) = 3000"
proof -
  let ?g = "make_gain eth_sell2 2 1000 (date_at 2023 1 10) (Some 1)"
  let ?res = "\<lparr>res_realized_gains = [(''ETH'', [?g])],
               res_inventory = [(''ETH'', [(1, 1000, date_at 2023 1 10, Some 1)])]\<rparr>"
  let ?c = "new_calculator [eth_buy3, eth_sell2]"
  have run: "process_transactions ?c
      = Inr (?res, ?c\<lparr>self_inventory := [(''ETH'', [(1, 1000, date_at 2023 1 10, Some 1)])]\<rparr>, [])"
    by (simp add: example_defs process_transactions_def process_tx_buy process_tx_sell
          entries_of_def setdefault_nil_def)
  have mem: "?g \<in> set (all_entries (res_realized_gains ?res))" by simp
  have q: "rg_quantity ?g = 2" "rg_buy_price ?g = 1000" "rg_sell_price ?g = 1500"
    by (simp_all add: make_gain_def Let_def example_defs)
  from fee_never_enters [of "\<lambda>tx. 25" ?c None Map.empty "[]"] run mem
  have "outcome (process_transactions (with_fees (\<lambda>tx. 25) ?c)) = outcome (process_transactions ?c)"
    and "rg_cost_basis ?g = rg_quantity ?g * rg_buy_price ?g \<and>
         rg_proceeds ?g = rg_quantity ?g * rg_sell_price ?g"
    by blast+
  with run q show ?thesis by simp
qed

end
